theory Spec2Isabelle
  imports Main "HOL-Library.Word"
begin

section \<open>The native half of java.util.zip.Deflater\<close>

text \<open>
  The development embeds \<^verbatim>\<open>luni/src/main/native/java_util_zip_Deflater.cpp\<close>: the JNI
  functions that drive one zlib deflate stream per \<^verbatim>\<open>java.util.zip.Deflater\<close> object.

  \<^item> \<^verbatim>\<open>jint\<close> and C's \<^verbatim>\<open>int\<close> are 32-bit words, \<^verbatim>\<open>jlong\<close> is a 64-bit word, a pointer is
    a word of the platform's pointer width \<open>'p\<close>; \<^verbatim>\<open>NULL\<close> is the zero word.
  \<^item> zlib is not part of the repository. Its entry points are the fields of a record of
    functions (\<open>zlib\<close>), each taking the \<^verbatim>\<open>z_stream\<close> it is handed and returning its
    status together with the \<^verbatim>\<open>z_stream\<close> it leaves behind.
  \<^item> Everything the functions can change is one state (\<open>world\<close>): the native heap of
    \<^verbatim>\<open>NativeZipStream\<close> objects, the exception pending in the \<^verbatim>\<open>JNIEnv\<close>, the two fields
    \<^verbatim>\<open>finished\<close> and \<^verbatim>\<open>inRead\<close> of the receiving \<^verbatim>\<open>Deflater\<close> object, and the list of calls
    made into zlib so far, each with the arguments it was given.
  \<^item> Dereferencing a handle that designates no live \<^verbatim>\<open>NativeZipStream\<close> is undefined
    behaviour; a function that does so returns \<open>None\<close>.
\<close>

subsection \<open>Machine types and the constants of zlib\<close>

type_synonym jint = "32 word"
type_synonym jlong = "64 word"

definition NULL :: "'p::len word" where
  "NULL = 0"

text \<open>
  The status codes, flush modes and defaults are those of \<^verbatim>\<open>zlib.h\<close>, \<^verbatim>\<open>zconf.h\<close> and \<^verbatim>\<open>zutil.h\<close>
  (\<^verbatim>\<open>DEF_WBITS\<close> is \<^verbatim>\<open>MAX_WBITS\<close>); the comment in \<^verbatim>\<open>Deflater_createStream\<close> quotes the two
  defaults, \<^verbatim>\<open>windowBits=15\<close> and \<^verbatim>\<open>memLevel = 8\<close>.
\<close>

definition Z_OK :: jint where
  "Z_OK = 0"

definition Z_STREAM_END :: jint where
  "Z_STREAM_END = 1"

definition Z_BUF_ERROR :: jint where
  "Z_BUF_ERROR = - 5"

definition Z_STREAM_ERROR :: jint where
  "Z_STREAM_ERROR = - 2"


definition Z_FINISH :: jint where
  "Z_FINISH = 4"

definition Z_BLOCK :: jint where
  "Z_BLOCK = 5"

definition Z_DEFLATED :: jint where
  "Z_DEFLATED = 8"

definition DEF_WBITS :: jint where
  "DEF_WBITS = 15"

definition DEF_MEM_LEVEL :: jint where
  "DEF_MEM_LEVEL = 8"

subsection \<open>The stream context\<close>

text \<open>
  \<^verbatim>\<open>z_stream\<close> with the four fields the adapter reads and writes; \<open>internal\<close> stands for
  everything else zlib keeps in it (totals, checksum, window, tables). The pointer type
  \<open>'a\<close> is instantiated with \<open>'p word\<close> throughout.
\<close>

record ('a, 'e) z_stream =
  next_in :: 'a
  avail_in :: "32 word"
  next_out :: 'a
  avail_out :: "32 word"
  internal :: 'e

record ('a, 'e) NativeZipStream =
  stream :: "('a, 'e) z_stream"

subsection \<open>zlib as a parameter, and the record of calls into it\<close>

record ('a, 'e) zlib =
  deflateInit2 :: "('a, 'e) z_stream \<Rightarrow> jint \<Rightarrow> jint \<Rightarrow> jint \<Rightarrow> jint \<Rightarrow> jint
                     \<Rightarrow> jint \<times> ('a, 'e) z_stream"
  deflate :: "('a, 'e) z_stream \<Rightarrow> jint \<Rightarrow> jint \<times> ('a, 'e) z_stream"
  deflateEnd :: "('a, 'e) z_stream \<Rightarrow> jint \<times> ('a, 'e) z_stream"
  deflateReset :: "('a, 'e) z_stream \<Rightarrow> jint \<times> ('a, 'e) z_stream"
  deflateParams :: "('a, 'e) z_stream \<Rightarrow> jint \<Rightarrow> jint \<Rightarrow> jint \<times> ('a, 'e) z_stream"
  zError :: "jint \<Rightarrow> string"

text \<open>One entry per call into zlib: the \<^verbatim>\<open>z_stream\<close> as passed, then the other arguments
  in the order of the C prototype.\<close>

datatype ('a, 'e) zlib_call =
    Call_deflateInit2 "('a, 'e) z_stream" jint jint jint jint jint
  | Call_deflate "('a, 'e) z_stream" jint
  | Call_deflateEnd "('a, 'e) z_stream"
  | Call_deflateReset "('a, 'e) z_stream"
  | Call_deflateParams "('a, 'e) z_stream" jint jint

subsection \<open>The state the JNI functions act on\<close>

text \<open>A pending Java exception: its class name and its message (\<open>None\<close> for \<^verbatim>\<open>NULL\<close>).\<close>

datatype throwable = Throwable (className: string) (message: "string option")

record ('a, 'e) world =
  heap :: "'a \<rightharpoonup> ('a, 'e) NativeZipStream"
  calls :: "('a, 'e) zlib_call list"
  exception :: "throwable option"
  finished :: bool
  inRead :: jint

subsection \<open>Helpers declared outside the file\<close>

text \<open>\<^verbatim>\<open>jniThrowOutOfMemoryError(env, NULL)\<close> of \<^verbatim>\<open>JNIHelp.h\<close>.\<close>

definition jniThrowOutOfMemoryError :: "('a, 'e) world \<Rightarrow> ('a, 'e) world" where
  "jniThrowOutOfMemoryError w =
     w\<lparr>exception := Some (Throwable ''java/lang/OutOfMemoryError'' None)\<rparr>"

text \<open>
  Modelled from the spec: \<^verbatim>\<open>throwExceptionForZlibError\<close>, declared in \<^verbatim>\<open>zip.h\<close>; its
  definition is not among the sources. The spec has every failure surface as a typed
  condition that carries the engine's own diagnostic text: the helper raises the exception
  class it is given, with zlib's message for the status as its message.
\<close>

definition throwExceptionForZlibError ::
  "('a, 'e) zlib \<Rightarrow> string \<Rightarrow> jint \<Rightarrow> ('a, 'e) world \<Rightarrow> ('a, 'e) world" where
  "throwExceptionForZlibError z exceptionClassName error w =
     w\<lparr>exception := Some (Throwable exceptionClassName (Some (zError z error)))\<rparr>"

text \<open>
  Modelled from the spec: \<^verbatim>\<open>toNativeZipStream\<close>, declared in \<^verbatim>\<open>zip.h\<close>; its definition is
  not among the sources. The handle is the context's address bound into a 64-bit integer;
  the helper casts it back, the inverse of the cast that ends \<^verbatim>\<open>Deflater_createStream\<close>.
\<close>

definition toNativeZipStream :: "jlong \<Rightarrow> 'p::len word" where
  "toNativeZipStream address = ucast address"

subsection \<open>The JNI functions\<close>

text \<open>
  \<^verbatim>\<open>Deflater_createStream\<close>. \<open>jstream\<close> is what \<^verbatim>\<open>new NativeZipStream\<close> returned (\<open>NULL\<close> when
  the allocation failed) and \<open>obj\<close> the object its constructor built there. The
  \<^verbatim>\<open>UniquePtr\<close> deletes the object on every return that comes before \<^verbatim>\<open>release()\<close>.
\<close>

definition Deflater_createStream ::
  "('p::len word, 'e) zlib \<Rightarrow> 'p word \<Rightarrow> ('p word, 'e) NativeZipStream
     \<Rightarrow> jint \<Rightarrow> jint \<Rightarrow> bool \<Rightarrow> ('p word, 'e) world \<Rightarrow> jlong \<times> ('p word, 'e) world" where
  "Deflater_createStream z jstream obj level strategy noHeader w =
     (if jstream = NULL then (- 1, jniThrowOutOfMemoryError w)
      else
        let w0 = w\<lparr>heap := (heap w)(jstream \<mapsto> obj)\<rparr>;
            windowBits = (if noHeader then - DEF_WBITS else DEF_WBITS);
            memLevel = DEF_MEM_LEVEL;
            (err, strm) = deflateInit2 z (stream obj) level Z_DEFLATED windowBits memLevel strategy;
            w1 = w0\<lparr>heap := (heap w0)(jstream \<mapsto> obj\<lparr>stream := strm\<rparr>),
                     calls := calls w0 @
                       [Call_deflateInit2 (stream obj) level Z_DEFLATED windowBits memLevel strategy]\<rparr>
        in if err \<noteq> Z_OK
           then let w2 = throwExceptionForZlibError z ''java/lang/IllegalArgumentException'' err w1
                in (- 1, w2\<lparr>heap := (heap w2)(jstream := None)\<rparr>)
           else (ucast jstream, w1))"

text \<open>
  Lines 99 to 106 of \<^verbatim>\<open>Deflater_deflateImpl\<close>, reached from the three \<^verbatim>\<open>break\<close>s of the
  switch: the two pointer differences narrowed to \<^verbatim>\<open>jint\<close>, the update of \<^verbatim>\<open>inRead\<close> and
  the return value.
\<close>

definition deflateImpl_tail ::
  "('p::len word, 'e) z_stream \<Rightarrow> 'p word \<Rightarrow> 'p word \<Rightarrow> ('p word, 'e) world
     \<Rightarrow> jint \<times> ('p word, 'e) world" where
  "deflateImpl_tail strm initialNextIn initialNextOut w =
     (let bytesRead = (scast (next_in strm - initialNextIn) :: jint);
          bytesWritten = (scast (next_out strm - initialNextOut) :: jint);
          inReadValue = inRead w + bytesRead
      in (bytesWritten, w\<lparr>inRead := inReadValue\<rparr>))"

text \<open>
  \<^verbatim>\<open>Deflater_deflateImpl\<close>. \<open>out\<close> is \<^verbatim>\<open>out.get()\<close>, the address at which
  \<^verbatim>\<open>ScopedByteArrayRW\<close> pinned the output array, \<open>NULL\<close> when it pinned nothing. The
  handle is first dereferenced on line 75, after the test of \<open>out\<close>.
\<close>

definition Deflater_deflateImpl ::
  "('p::len word, 'e) zlib \<Rightarrow> 'p word \<Rightarrow> jint \<Rightarrow> jint \<Rightarrow> jlong \<Rightarrow> jint
     \<Rightarrow> ('p word, 'e) world \<Rightarrow> (jint \<times> ('p word, 'e) world) option" where
  "Deflater_deflateImpl z out off len handle flushStyle w =
     (if out = NULL then Some (- 1, w)
      else
        case heap w (toNativeZipStream handle) of
          None \<Rightarrow> None
        | Some ns \<Rightarrow>
            let strm0 = (stream ns)\<lparr>next_out := out + scast off, avail_out := len\<rparr>;
                initialNextIn = next_in strm0;
                initialNextOut = next_out strm0;
                (err, strm) = deflate z strm0 flushStyle;
                w1 = w\<lparr>heap := (heap w)(toNativeZipStream handle \<mapsto> ns\<lparr>stream := strm\<rparr>),
                        calls := calls w @ [Call_deflate strm0 flushStyle]\<rparr>
            in if err = Z_OK then Some (deflateImpl_tail strm initialNextIn initialNextOut w1)
               else if err = Z_STREAM_END
               then Some (deflateImpl_tail strm initialNextIn initialNextOut (w1\<lparr>finished := True\<rparr>))
               else if err = Z_BUF_ERROR
               then Some (deflateImpl_tail strm initialNextIn initialNextOut w1)
               else Some (- 1,
                      throwExceptionForZlibError z ''java/util/zip/DataFormatException'' err w1))"

text \<open>\<^verbatim>\<open>Deflater_endImpl\<close>: \<^verbatim>\<open>deflateEnd\<close>, then \<^verbatim>\<open>delete stream\<close>.\<close>

definition Deflater_endImpl ::
  "('p::len word, 'e) zlib \<Rightarrow> jlong \<Rightarrow> ('p word, 'e) world \<Rightarrow> ('p word, 'e) world option" where
  "Deflater_endImpl z handle w =
     (case heap w (toNativeZipStream handle) of
        None \<Rightarrow> None
      | Some ns \<Rightarrow>
          Some (w\<lparr>heap := (heap w)(toNativeZipStream handle := None),
                  calls := calls w @ [Call_deflateEnd (stream ns)]\<rparr>))"

text \<open>\<^verbatim>\<open>Deflater_resetImpl\<close>.\<close>

definition Deflater_resetImpl ::
  "('p::len word, 'e) zlib \<Rightarrow> jlong \<Rightarrow> ('p word, 'e) world \<Rightarrow> ('p word, 'e) world option" where
  "Deflater_resetImpl z handle w =
     (case heap w (toNativeZipStream handle) of
        None \<Rightarrow> None
      | Some ns \<Rightarrow>
          let (err, strm) = deflateReset z (stream ns);
              w1 = w\<lparr>heap := (heap w)(toNativeZipStream handle \<mapsto> ns\<lparr>stream := strm\<rparr>),
                      calls := calls w @ [Call_deflateReset (stream ns)]\<rparr>
          in if err \<noteq> Z_OK
             then Some (throwExceptionForZlibError z ''java/lang/IllegalArgumentException'' err w1)
             else Some w1)"

text \<open>\<^verbatim>\<open>Deflater_setLevelsImpl\<close>.\<close>

definition Deflater_setLevelsImpl ::
  "('p::len word, 'e) zlib \<Rightarrow> jint \<Rightarrow> jint \<Rightarrow> jlong \<Rightarrow> ('p word, 'e) world
     \<Rightarrow> ('p word, 'e) world option" where
  "Deflater_setLevelsImpl z level strategy handle w =
     (case heap w (toNativeZipStream handle) of
        None \<Rightarrow> None
      | Some ns \<Rightarrow>
          let strm0 = (stream ns)\<lparr>next_out := NULL, avail_out := 0\<rparr>;
              (err, strm) = deflateParams z strm0 level strategy;
              w1 = w\<lparr>heap := (heap w)(toNativeZipStream handle \<mapsto> ns\<lparr>stream := strm\<rparr>),
                      calls := calls w @ [Call_deflateParams strm0 level strategy]\<rparr>
          in if err \<noteq> Z_OK
             then Some (throwExceptionForZlibError z ''java/lang/IllegalStateException'' err w1)
             else Some w1)"

subsection \<open>A small engine to run the functions on\<close>

text \<open>
  An instance of \<open>zlib\<close> on 32-bit pointers that stores instead of compressing: a step
  copies as many bytes as both regions allow. Its private state is the level and strategy
  it was initialised with, \<open>None\<close> before initialisation and after \<^verbatim>\<open>deflateEnd\<close>. With no
  output space it reports \<^verbatim>\<open>Z_BUF_ERROR\<close> and moves nothing; a flush mode beyond \<^verbatim>\<open>Z_FINISH\<close>
  (4) is found out only after the copy and reported as \<^verbatim>\<open>Z_STREAM_ERROR\<close> (-2).
\<close>

type_synonym demo_stream = "(32 word, (jint \<times> jint) option) z_stream"

definition demo_deflateInit2 ::
  "demo_stream \<Rightarrow> jint \<Rightarrow> jint \<Rightarrow> jint \<Rightarrow> jint \<Rightarrow> jint \<Rightarrow> jint \<times> demo_stream" where
  "demo_deflateInit2 strm level method windowBits memLevel strategy =
     (if level \<le> 9 \<and> method = Z_DEFLATED \<and> strategy \<le> 4
      then (Z_OK, strm\<lparr>internal := Some (level, strategy)\<rparr>)
      else (- 2, strm))"

definition demo_deflate :: "demo_stream \<Rightarrow> jint \<Rightarrow> jint \<times> demo_stream" where
  "demo_deflate strm flush =
     (if avail_out strm = 0 then (Z_BUF_ERROR, strm)
      else
        case internal strm of
          None \<Rightarrow> (- 2, strm)
        | Some cfg \<Rightarrow>
            let n = min (avail_in strm) (avail_out strm);
                strm' = strm\<lparr>next_in := next_in strm + n, avail_in := avail_in strm - n,
                             next_out := next_out strm + n, avail_out := avail_out strm - n\<rparr>
            in if 4 < flush then (- 2, strm')
               else if flush = 4 \<and> avail_in strm' = 0 then (Z_STREAM_END, strm')
               else (Z_OK, strm'))"

definition demo_deflateEnd :: "demo_stream \<Rightarrow> jint \<times> demo_stream" where
  "demo_deflateEnd strm = (Z_OK, strm\<lparr>internal := None\<rparr>)"

definition demo_deflateReset :: "demo_stream \<Rightarrow> jint \<times> demo_stream" where
  "demo_deflateReset strm =
     (case internal strm of None \<Rightarrow> (- 2, strm) | Some cfg \<Rightarrow> (Z_OK, strm))"

definition demo_deflateParams :: "demo_stream \<Rightarrow> jint \<Rightarrow> jint \<Rightarrow> jint \<times> demo_stream" where
  "demo_deflateParams strm level strategy =
     (case internal strm of
        None \<Rightarrow> (- 2, strm)
      | Some cfg \<Rightarrow>
          if level \<le> 9 \<and> strategy \<le> 4 then (Z_OK, strm\<lparr>internal := Some (level, strategy)\<rparr>)
          else (- 2, strm))"

definition demo_zError :: "jint \<Rightarrow> string" where
  "demo_zError err = (if err = - 2 then ''stream error'' else ''other error'')"

definition demo_zlib :: "(32 word, (jint \<times> jint) option) zlib" where
  "demo_zlib = \<lparr>deflateInit2 = demo_deflateInit2, deflate = demo_deflate,
                 deflateEnd = demo_deflateEnd, deflateReset = demo_deflateReset,
                 deflateParams = demo_deflateParams, zError = demo_zError\<rparr>"

text \<open>
  A state with two contexts on the heap: at \<open>0x1000\<close> a stream initialised with level 6
  and eleven bytes of input bound at \<open>0x2000\<close>; at \<open>0x3000\<close> a context whose engine state
  is gone. \<open>demo_obj\<close> is a freshly constructed context.
\<close>

definition demo_obj :: "(32 word, (jint \<times> jint) option) NativeZipStream" where
  "demo_obj = \<lparr>stream = \<lparr>next_in = 0, avail_in = 0, next_out = 0, avail_out = 0,
                           internal = None\<rparr>\<rparr>"

definition demo_live :: "(32 word, (jint \<times> jint) option) NativeZipStream" where
  "demo_live = \<lparr>stream = \<lparr>next_in = 0x2000, avail_in = 11, next_out = 0, avail_out = 0,
                            internal = Some (6, 0)\<rparr>\<rparr>"

definition demo_world :: "(32 word, (jint \<times> jint) option) world" where
  "demo_world = \<lparr>heap = [0x1000 \<mapsto> demo_live, 0x3000 \<mapsto> demo_obj], calls = [],
                  exception = None, finished = False, inRead = 0\<rparr>"

subsection \<open>An engine that checks its arguments the way zlib does\<close>

text \<open>
  A second instance of \<open>zlib\<close> on 32-bit pointers. It still stores instead of compressing,
  but it keeps the state zlib's entry points test and tests it in zlib's order:
  \<^item> \<^verbatim>\<open>deflateInit2\<close> takes a negative \<^verbatim>\<open>windowBits\<close> as a request for raw output with
    that many bits, rejects what is out of range with \<^verbatim>\<open>Z_STREAM_ERROR\<close> and otherwise
    keeps level, strategy, window bits and the raw flag;
  \<^item> \<^verbatim>\<open>deflate\<close> reports \<^verbatim>\<open>Z_STREAM_ERROR\<close> for a stream without state, for a flush
    mode outside \<^verbatim>\<open>0..Z_BLOCK\<close>, for a \<^verbatim>\<open>NULL\<close> output cursor, for a \<^verbatim>\<open>NULL\<close> input
    cursor with input pending, and for a finished stream driven with a flush mode other
    than \<^verbatim>\<open>Z_FINISH\<close>; only then does it look at the output space and report
    \<^verbatim>\<open>Z_BUF_ERROR\<close> when there is none;
  \<^item> \<^verbatim>\<open>deflateParams\<close> and \<^verbatim>\<open>deflateReset\<close> report \<^verbatim>\<open>Z_STREAM_ERROR\<close> for a stream
    without state.
\<close>

datatype zstatus = BUSY_STATE | FINISH_STATE

record zlike_state =
  st_status :: zstatus
  st_level :: jint
  st_strategy :: jint
  st_wbits :: jint
  st_raw :: bool

type_synonym zlike_stream = "(32 word, zlike_state option) z_stream"

definition zlike_deflateInit2 ::
  "zlike_stream \<Rightarrow> jint \<Rightarrow> jint \<Rightarrow> jint \<Rightarrow> jint \<Rightarrow> jint \<Rightarrow> jint \<times> zlike_stream" where
  "zlike_deflateInit2 strm level method windowBits memLevel strategy =
     (let lvl = (if level = - 1 then 6 else level);
          raw = (sint windowBits < 0);
          bits = (if raw then - windowBits else windowBits)
      in if sint memLevel < 1 \<or> 9 < sint memLevel \<or> method \<noteq> Z_DEFLATED
            \<or> sint bits < 8 \<or> 15 < sint bits \<or> sint lvl < 0 \<or> 9 < sint lvl
            \<or> sint strategy < 0 \<or> 4 < sint strategy
         then (Z_STREAM_ERROR, strm)
         else (Z_OK, strm\<lparr>internal := Some \<lparr>st_status = BUSY_STATE, st_level = lvl,
                                               st_strategy = strategy, st_wbits = bits,
                                               st_raw = raw\<rparr>\<rparr>))"

definition zlike_deflate :: "zlike_stream \<Rightarrow> jint \<Rightarrow> jint \<times> zlike_stream" where
  "zlike_deflate strm flush =
     (case internal strm of
        None \<Rightarrow> (Z_STREAM_ERROR, strm)
      | Some s \<Rightarrow>
          if sint Z_BLOCK < sint flush \<or> sint flush < 0 then (Z_STREAM_ERROR, strm)
          else if next_out strm = NULL \<or> (next_in strm = NULL \<and> avail_in strm \<noteq> 0)
                  \<or> (st_status s = FINISH_STATE \<and> flush \<noteq> Z_FINISH)
          then (Z_STREAM_ERROR, strm)
          else if avail_out strm = 0 then (Z_BUF_ERROR, strm)
          else
            let n = min (avail_in strm) (avail_out strm);
                s' = (if flush = Z_FINISH then s\<lparr>st_status := FINISH_STATE\<rparr> else s);
                strm' = strm\<lparr>next_in := next_in strm + n, avail_in := avail_in strm - n,
                             next_out := next_out strm + n, avail_out := avail_out strm - n,
                             internal := Some s'\<rparr>
            in if flush = Z_FINISH \<and> avail_in strm' = 0 then (Z_STREAM_END, strm')
               else (Z_OK, strm'))"

definition zlike_deflateEnd :: "zlike_stream \<Rightarrow> jint \<times> zlike_stream" where
  "zlike_deflateEnd strm =
     (case internal strm of
        None \<Rightarrow> (Z_STREAM_ERROR, strm)
      | Some s \<Rightarrow> (Z_OK, strm\<lparr>internal := None\<rparr>))"

definition zlike_deflateReset :: "zlike_stream \<Rightarrow> jint \<times> zlike_stream" where
  "zlike_deflateReset strm =
     (case internal strm of
        None \<Rightarrow> (Z_STREAM_ERROR, strm)
      | Some s \<Rightarrow> (Z_OK, strm\<lparr>internal := Some (s\<lparr>st_status := BUSY_STATE\<rparr>)\<rparr>))"

definition zlike_deflateParams :: "zlike_stream \<Rightarrow> jint \<Rightarrow> jint \<Rightarrow> jint \<times> zlike_stream" where
  "zlike_deflateParams strm level strategy =
     (case internal strm of
        None \<Rightarrow> (Z_STREAM_ERROR, strm)
      | Some s \<Rightarrow>
          let lvl = (if level = - 1 then 6 else level)
          in if sint lvl < 0 \<or> 9 < sint lvl \<or> sint strategy < 0 \<or> 4 < sint strategy
             then (Z_STREAM_ERROR, strm)
             else (Z_OK, strm\<lparr>internal := Some (s\<lparr>st_level := lvl, st_strategy := strategy\<rparr>)\<rparr>))"

definition zlike_zError :: "jint \<Rightarrow> string" where
  "zlike_zError err =
     (if err = Z_STREAM_ERROR then ''stream error''
      else if err = Z_BUF_ERROR then ''buffer error''
      else ''other error'')"

definition zlike_zlib :: "(32 word, zlike_state option) zlib" where
  "zlike_zlib = \<lparr>deflateInit2 = zlike_deflateInit2, deflate = zlike_deflate,
                  deflateEnd = zlike_deflateEnd, deflateReset = zlike_deflateReset,
                  deflateParams = zlike_deflateParams, zError = zlike_zError\<rparr>"

text \<open>
  Its example state. \<open>zlike_fresh\<close> is a freshly constructed context. The heap holds three
  contexts, each with eleven bytes of input bound at \<open>0x2000\<close> and with the output binding
  an earlier deflate call left behind (cursor \<open>0x4005\<close>, 59 bytes remaining): at
  \<open>0x1000\<close> a stream at level 6 in mid-stream, at \<open>0x3000\<close> the same stream after it has
  finished, at \<open>0x6000\<close> a context whose engine state is gone.
\<close>

definition zlike_fresh :: "(32 word, zlike_state option) NativeZipStream" where
  "zlike_fresh = \<lparr>stream = \<lparr>next_in = 0, avail_in = 0, next_out = 0, avail_out = 0,
                              internal = None\<rparr>\<rparr>"

definition zlike_busy :: "(32 word, zlike_state option) NativeZipStream" where
  "zlike_busy = \<lparr>stream = \<lparr>next_in = 0x2000, avail_in = 11, next_out = 0x4005, avail_out = 59,
                             internal = Some \<lparr>st_status = BUSY_STATE, st_level = 6,
                                              st_strategy = 0, st_wbits = 15,
                                              st_raw = False\<rparr>\<rparr>\<rparr>"

definition zlike_finished :: "(32 word, zlike_state option) NativeZipStream" where
  "zlike_finished = \<lparr>stream = \<lparr>next_in = 0x2000, avail_in = 11, next_out = 0x4005,
                                 avail_out = 59,
                                 internal = Some \<lparr>st_status = FINISH_STATE, st_level = 6,
                                                  st_strategy = 0, st_wbits = 15,
                                                  st_raw = False\<rparr>\<rparr>\<rparr>"

definition zlike_ended :: "(32 word, zlike_state option) NativeZipStream" where
  "zlike_ended = \<lparr>stream = \<lparr>next_in = 0x2000, avail_in = 11, next_out = 0x4005,
                              avail_out = 59, internal = None\<rparr>\<rparr>"

definition zlike_world :: "(32 word, zlike_state option) world" where
  "zlike_world = \<lparr>heap = [0x1000 \<mapsto> zlike_busy, 0x3000 \<mapsto> zlike_finished,
                          0x6000 \<mapsto> zlike_ended],
                   calls = [], exception = None, finished = False, inRead = 0\<rparr>"

section \<open>Properties\<close>

subsection \<open>Auxiliary facts\<close>

lemma Z_codes_distinct:
  "Z_OK \<noteq> Z_STREAM_END" "Z_OK \<noteq> Z_BUF_ERROR" "Z_STREAM_END \<noteq> Z_BUF_ERROR"
  by (simp_all add: Z_OK_def Z_STREAM_END_def Z_BUF_ERROR_def)

text \<open>The body of \<^verbatim>\<open>Deflater_deflateImpl\<close> once the buffer is pinned, the handle is live
  and the engine's answer is known.\<close>

lemma deflateImpl_unfold:
  fixes z :: "('p::len word, 'e) zlib"
  assumes "out \<noteq> NULL"
    and "heap w (toNativeZipStream handle) = Some ns"
    and "deflate z ((stream ns)\<lparr>next_out := out + scast off, avail_out := len\<rparr>) flushStyle
           = (err, strm)"
  shows "Deflater_deflateImpl z out off len handle flushStyle w =
    (let w1 = w\<lparr>heap := (heap w)(toNativeZipStream handle \<mapsto> ns\<lparr>stream := strm\<rparr>),
                 calls := calls w @
                   [Call_deflate ((stream ns)\<lparr>next_out := out + scast off, avail_out := len\<rparr>)
                      flushStyle]\<rparr>
     in if err = Z_OK \<or> err = Z_BUF_ERROR
        then Some (deflateImpl_tail strm (next_in (stream ns)) (out + scast off) w1)
        else if err = Z_STREAM_END
        then Some (deflateImpl_tail strm (next_in (stream ns)) (out + scast off)
                     (w1\<lparr>finished := True\<rparr>))
        else Some (- 1, throwExceptionForZlibError z ''java/util/zip/DataFormatException'' err w1))"
  using assms Z_codes_distinct by (simp add: Deflater_deflateImpl_def Let_def)

text \<open>Narrowing a pointer difference (\<^verbatim>\<open>ptrdiff_t\<close>) to \<^verbatim>\<open>jint\<close> keeps its value when the
  value is one a \<^verbatim>\<open>jint\<close> has.\<close>

lemma sint_scast_fits:
  fixes d :: "'p::len word"
  assumes "- (2 ^ 31) \<le> sint d" and "sint d < 2 ^ 31"
  shows "sint (scast d :: 32 word) = sint d"
  using assms by (simp add: signed_scast_eq signed_take_bit_int_eq_self)

text \<open>A pointer of at most 64 bits other than the all-ones address widens to a \<^verbatim>\<open>jlong\<close>
  other than -1.\<close>

lemma ucast_jlong_not_sentinel:
  fixes p :: "'p::len word"
  assumes "LENGTH('p) \<le> 64" and "p \<noteq> - 1"
  shows "(ucast p :: 64 word) \<noteq> - 1"
proof
  assume eq: "(ucast p :: 64 word) = - 1"
  have "p = - 1"
  proof (rule bit_word_eqI)
    fix n assume n: "n < LENGTH('p)"
    then have "n < 64" using assms(1) by simp
    from eq have "bit (ucast p :: 64 word) n = bit (- 1 :: 64 word) n" by simp
    then show "bit p n = bit (- 1 :: 'p word) n" using n \<open>n < 64\<close> by (simp add: bit_simps)
  qed
  with assms(2) show False by simp
qed

text \<open>The small engine at work on the example state.\<close>

lemma demo_pinned: "(0x4000 :: 32 word) \<noteq> NULL"
  by (simp add: NULL_def)

lemma demo_handle_live: "heap demo_world (toNativeZipStream 0x1000) = Some demo_live"
  by (simp add: demo_world_def toNativeZipStream_def)

lemma demo_handle_dead: "heap demo_world (toNativeZipStream 0x3000) = Some demo_obj"
  by (simp add: demo_world_def toNativeZipStream_def)

lemma demo_step_ok:
  "deflate demo_zlib ((stream demo_live)\<lparr>next_out := 0x4000 + scast (0 :: jint), avail_out := 5\<rparr>) 0
     = (Z_OK, \<lparr>next_in = 0x2005, avail_in = 6, next_out = 0x4005, avail_out = 0,
                internal = Some (6, 0)\<rparr>)"
  by (simp add: demo_zlib_def demo_deflate_def demo_live_def Let_def)

lemma demo_step_end:
  "deflate demo_zlib ((stream demo_live)\<lparr>next_out := 0x4000 + scast (0 :: jint), avail_out := 64\<rparr>) 4
     = (Z_STREAM_END, \<lparr>next_in = 0x200B, avail_in = 0, next_out = 0x400B, avail_out = 53,
                        internal = Some (6, 0)\<rparr>)"
  by (simp add: demo_zlib_def demo_deflate_def demo_live_def Let_def)

lemma demo_step_buf:
  "deflate demo_zlib ((stream demo_live)\<lparr>next_out := 0x4000 + scast (0 :: jint), avail_out := 0\<rparr>) 0
     = (Z_BUF_ERROR, \<lparr>next_in = 0x2000, avail_in = 11, next_out = 0x4000, avail_out = 0,
                       internal = Some (6, 0)\<rparr>)"
  by (simp add: demo_zlib_def demo_deflate_def demo_live_def Let_def)

lemma demo_step_fatal:
  "deflate demo_zlib ((stream demo_live)\<lparr>next_out := 0x4000 + scast (0 :: jint), avail_out := 5\<rparr>) 7
     = (- 2, \<lparr>next_in = 0x2005, avail_in = 6, next_out = 0x4005, avail_out = 0,
               internal = Some (6, 0)\<rparr>)"
  by (simp add: demo_zlib_def demo_deflate_def demo_live_def Let_def)

lemma demo_status_fatal:
  "(- 2 :: jint) \<noteq> Z_OK" "(- 2 :: jint) \<noteq> Z_STREAM_END" "(- 2 :: jint) \<noteq> Z_BUF_ERROR"
  by (simp_all add: Z_OK_def Z_STREAM_END_def Z_BUF_ERROR_def)

lemma demo_message: "zError demo_zlib (- 2) = ''stream error''"
  by (simp add: demo_zlib_def demo_zError_def)

lemma demo_reset_rejected: "deflateReset demo_zlib (stream demo_obj) = (- 2, stream demo_obj)"
  by (simp add: demo_zlib_def demo_deflateReset_def demo_obj_def)

lemma demo_init_accepted:
  "deflateInit2 demo_zlib (stream demo_obj) 6 Z_DEFLATED
     (if True then - DEF_WBITS else DEF_WBITS) DEF_MEM_LEVEL 0
     = (Z_OK, (stream demo_obj)\<lparr>internal := Some (6, 0)\<rparr>)"
  by (simp add: demo_zlib_def demo_deflateInit2_def)

lemma demo_init_rejected:
  "deflateInit2 demo_zlib (stream demo_obj) 99 Z_DEFLATED
     (if True then - DEF_WBITS else DEF_WBITS) DEF_MEM_LEVEL 0
     = (- 2, stream demo_obj)"
  by (simp add: demo_zlib_def demo_deflateInit2_def)

text \<open>The engine that checks like zlib at work on its example state.\<close>

lemma Z_STREAM_ERROR_fatal:
  "Z_STREAM_ERROR \<noteq> Z_OK" "Z_STREAM_ERROR \<noteq> Z_STREAM_END" "Z_STREAM_ERROR \<noteq> Z_BUF_ERROR"
  by (simp_all add: Z_STREAM_ERROR_def Z_OK_def Z_STREAM_END_def Z_BUF_ERROR_def)


lemma zlike_allocated: "(0x5000 :: 32 word) \<noteq> NULL"
  by (simp add: NULL_def)

lemma zlike_handle_busy: "heap zlike_world (toNativeZipStream 0x1000) = Some zlike_busy"
  by (simp add: zlike_world_def toNativeZipStream_def)


lemma zlike_handle_ended: "heap zlike_world (toNativeZipStream 0x6000) = Some zlike_ended"
  by (simp add: zlike_world_def toNativeZipStream_def)

lemma zlike_message: "zError zlike_zlib Z_STREAM_ERROR = ''stream error''"
  by (simp add: zlike_zlib_def zlike_zError_def)

lemma zlike_init_raw:
  "deflateInit2 zlike_zlib (stream zlike_fresh) 6 Z_DEFLATED
     (if True then - DEF_WBITS else DEF_WBITS) DEF_MEM_LEVEL 2
     = (Z_OK, (stream zlike_fresh)\<lparr>internal :=
                 Some \<lparr>st_status = BUSY_STATE, st_level = 6, st_strategy = 2, st_wbits = 15,
                       st_raw = True\<rparr>\<rparr>)"
  by (simp add: zlike_zlib_def zlike_deflateInit2_def Z_DEFLATED_def DEF_WBITS_def
        DEF_MEM_LEVEL_def Let_def)

lemma zlike_init_wrapped:
  "deflateInit2 zlike_zlib (stream zlike_fresh) 6 Z_DEFLATED
     (if False then - DEF_WBITS else DEF_WBITS) DEF_MEM_LEVEL 2
     = (Z_OK, (stream zlike_fresh)\<lparr>internal :=
                 Some \<lparr>st_status = BUSY_STATE, st_level = 6, st_strategy = 2, st_wbits = 15,
                       st_raw = False\<rparr>\<rparr>)"
  by (simp add: zlike_zlib_def zlike_deflateInit2_def Z_DEFLATED_def DEF_WBITS_def
        DEF_MEM_LEVEL_def Let_def)

lemma zlike_init_rejected:
  "deflateInit2 zlike_zlib (stream zlike_fresh) 2 Z_DEFLATED
     (if True then - DEF_WBITS else DEF_WBITS) DEF_MEM_LEVEL 6
     = (Z_STREAM_ERROR, stream zlike_fresh)"
  by (simp add: zlike_zlib_def zlike_deflateInit2_def Z_DEFLATED_def DEF_WBITS_def
        DEF_MEM_LEVEL_def Let_def)

lemma zlike_params_accepted:
  "deflateParams zlike_zlib ((stream zlike_busy)\<lparr>next_out := NULL, avail_out := 0\<rparr>) 9 1
     = (Z_OK, \<lparr>next_in = 0x2000, avail_in = 11, next_out = 0, avail_out = 0,
                internal = Some \<lparr>st_status = BUSY_STATE, st_level = 9, st_strategy = 1,
                                 st_wbits = 15, st_raw = False\<rparr>\<rparr>)"
  by (simp add: zlike_zlib_def zlike_deflateParams_def zlike_busy_def NULL_def Let_def)

lemma zlike_params_rejected:
  "deflateParams zlike_zlib ((stream zlike_ended)\<lparr>next_out := NULL, avail_out := 0\<rparr>) 9 1
     = (Z_STREAM_ERROR, \<lparr>next_in = 0x2000, avail_in = 11, next_out = 0, avail_out = 0,
                          internal = None\<rparr>)"
  by (simp add: zlike_zlib_def zlike_deflateParams_def zlike_ended_def NULL_def)



subsection \<open>deflate\<close>

text \<open>
  C1. A deflate call on a pinned buffer and a live handle maps the engine's status to
  four outcomes. On \<^verbatim>\<open>Z_OK\<close> it returns the bytes produced (the advance of the output
  cursor, narrowed to \<^verbatim>\<open>jint\<close>) and changes neither the finished flag nor the pending
  exception. On \<^verbatim>\<open>Z_STREAM_END\<close> it sets the finished flag and returns the bytes produced.
  On \<^verbatim>\<open>Z_BUF_ERROR\<close> it returns the bytes produced and raises nothing. On any other status
  it raises \<^verbatim>\<open>java/util/zip/DataFormatException\<close> with the engine's message for that status
  and returns -1.
\<close>

theorem deflateImpl_status_mapping:
  fixes z :: "('p::len word, 'e) zlib"
  assumes "out \<noteq> NULL"
    and "heap w (toNativeZipStream handle) = Some ns"
    and "deflate z ((stream ns)\<lparr>next_out := out + scast off, avail_out := len\<rparr>) flushStyle
           = (err, strm)"
  shows "\<exists>r w'. Deflater_deflateImpl z out off len handle flushStyle w = Some (r, w')
     \<and> (err = Z_OK \<longrightarrow>
          r = scast (next_out strm - (out + scast off))
          \<and> finished w' = finished w \<and> exception w' = exception w)
     \<and> (err = Z_STREAM_END \<longrightarrow>
          r = scast (next_out strm - (out + scast off))
          \<and> finished w' \<and> exception w' = exception w)
     \<and> (err = Z_BUF_ERROR \<longrightarrow>
          r = scast (next_out strm - (out + scast off))
          \<and> finished w' = finished w \<and> exception w' = exception w)
     \<and> (err \<noteq> Z_OK \<and> err \<noteq> Z_STREAM_END \<and> err \<noteq> Z_BUF_ERROR \<longrightarrow>
          r = - 1
          \<and> exception w' =
              Some (Throwable ''java/util/zip/DataFormatException'' (Some (zError z err))))"
  using Z_codes_distinct
  by (simp add: deflateImpl_unfold [OF assms] deflateImpl_tail_def
        throwExceptionForZlibError_def Let_def)

theorem deflateImpl_status_mapping_witness:
  "(\<exists>r w'. Deflater_deflateImpl demo_zlib 0x4000 0 5 0x1000 0 demo_world = Some (r, w')
       \<and> r = 5 \<and> finished w' = False \<and> exception w' = None)
   \<and> (\<exists>r w'. Deflater_deflateImpl demo_zlib 0x4000 0 64 0x1000 4 demo_world = Some (r, w')
       \<and> r = 11 \<and> finished w' = True \<and> exception w' = None)
   \<and> (\<exists>r w'. Deflater_deflateImpl demo_zlib 0x4000 0 0 0x1000 0 demo_world = Some (r, w')
       \<and> r = 0 \<and> finished w' = False \<and> exception w' = None)
   \<and> (\<exists>r w'. Deflater_deflateImpl demo_zlib 0x4000 0 5 0x1000 7 demo_world = Some (r, w')
       \<and> r = - 1
       \<and> exception w' =
           Some (Throwable ''java/util/zip/DataFormatException'' (Some ''stream error'')))"
proof -
  have init: "finished demo_world = False" "exception demo_world = None"
    by (simp_all add: demo_world_def)
  have msg: "zError demo_zlib (- 2) = ''stream error''"
    by (simp add: demo_zlib_def demo_zError_def)
  note codes = Z_codes_distinct Z_codes_distinct [symmetric] demo_status_fatal
  from deflateImpl_status_mapping [OF demo_pinned demo_handle_live demo_step_ok]
  have ok: "\<exists>r w'. Deflater_deflateImpl demo_zlib 0x4000 0 5 0x1000 0 demo_world = Some (r, w')
       \<and> r = 5 \<and> finished w' = False \<and> exception w' = None"
    by (simp add: init codes)
  from deflateImpl_status_mapping [OF demo_pinned demo_handle_live demo_step_end]
  have fin: "\<exists>r w'. Deflater_deflateImpl demo_zlib 0x4000 0 64 0x1000 4 demo_world = Some (r, w')
       \<and> r = 11 \<and> finished w' = True \<and> exception w' = None"
    by (simp add: init codes)
  from deflateImpl_status_mapping [OF demo_pinned demo_handle_live demo_step_buf]
  have buf: "\<exists>r w'. Deflater_deflateImpl demo_zlib 0x4000 0 0 0x1000 0 demo_world = Some (r, w')
       \<and> r = 0 \<and> finished w' = False \<and> exception w' = None"
    by (simp add: init codes)
  from deflateImpl_status_mapping [OF demo_pinned demo_handle_live demo_step_fatal]
  have fatal: "\<exists>r w'. Deflater_deflateImpl demo_zlib 0x4000 0 5 0x1000 7 demo_world = Some (r, w')
       \<and> r = - 1
       \<and> exception w' =
           Some (Throwable ''java/util/zip/DataFormatException'' (Some ''stream error''))"
    by (simp add: msg codes)
  from ok fin buf fatal show ?thesis by blast
qed

text \<open>
  C2. A deflate call whose engine status is one of the three non-fatal ones returns the
  advance of the output cursor over the engine step and adds the advance of the input
  cursor to \<^verbatim>\<open>inRead\<close>. Both advances are pointer differences narrowed to \<^verbatim>\<open>jint\<close>, and the
  addition is \<^verbatim>\<open>jint\<close> addition; whenever an advance is a value a \<^verbatim>\<open>jint\<close> has, the
  number returned, respectively added, is that very value.
\<close>

theorem deflateImpl_byte_accounting:
  fixes z :: "('p::len word, 'e) zlib"
  assumes "out \<noteq> NULL"
    and "heap w (toNativeZipStream handle) = Some ns"
    and "deflate z ((stream ns)\<lparr>next_out := out + scast off, avail_out := len\<rparr>) flushStyle
           = (err, strm)"
    and "err = Z_OK \<or> err = Z_STREAM_END \<or> err = Z_BUF_ERROR"
  shows "\<exists>r w'. Deflater_deflateImpl z out off len handle flushStyle w = Some (r, w')
     \<and> r = scast (next_out strm - (out + scast off))
     \<and> inRead w' = inRead w + scast (next_in strm - next_in (stream ns))
     \<and> (- (2 ^ 31) \<le> sint (next_out strm - (out + scast off))
          \<and> sint (next_out strm - (out + scast off)) < 2 ^ 31
        \<longrightarrow> sint r = sint (next_out strm - (out + scast off)))
     \<and> (- (2 ^ 31) \<le> sint (next_in strm - next_in (stream ns))
          \<and> sint (next_in strm - next_in (stream ns)) < 2 ^ 31
        \<longrightarrow> sint (inRead w' - inRead w) = sint (next_in strm - next_in (stream ns)))"
  using assms(4) Z_codes_distinct
  by (auto simp add: deflateImpl_unfold [OF assms(1-3)] deflateImpl_tail_def Let_def
        sint_scast_fits)

theorem deflateImpl_byte_accounting_witness:
  "\<exists>r w'. Deflater_deflateImpl demo_zlib 0x4000 0 5 0x1000 0 (demo_world\<lparr>inRead := 6\<rparr>)
             = Some (r, w')
     \<and> r = 5 \<and> sint r = 5 \<and> inRead w' = 11 \<and> sint (inRead w' - 6) = 5"
proof -
  have live: "heap (demo_world\<lparr>inRead := 6\<rparr>) (toNativeZipStream 0x1000) = Some demo_live"
    by (simp add: demo_world_def toNativeZipStream_def)
  have nonfatal: "Z_OK = Z_OK \<or> Z_OK = Z_STREAM_END \<or> Z_OK = Z_BUF_ERROR"
    by simp
  have nin: "next_in (stream demo_live) = 0x2000"
    by (simp add: demo_live_def)
  from deflateImpl_byte_accounting [OF demo_pinned live demo_step_ok nonfatal]
  show ?thesis by (simp add: nin)
qed




text \<open>
  C9. A deflate call whose engine status is none of \<^verbatim>\<open>Z_OK\<close>, \<^verbatim>\<open>Z_STREAM_END\<close> and
  \<^verbatim>\<open>Z_BUF_ERROR\<close> returns -1 and leaves \<^verbatim>\<open>inRead\<close> and the finished flag as they were,
  wherever the engine left the input cursor.
\<close>

theorem deflateImpl_fatal_keeps_counters:
  fixes z :: "('p::len word, 'e) zlib"
  assumes "out \<noteq> NULL"
    and "heap w (toNativeZipStream handle) = Some ns"
    and "deflate z ((stream ns)\<lparr>next_out := out + scast off, avail_out := len\<rparr>) flushStyle
           = (err, strm)"
    and "err \<noteq> Z_OK" and "err \<noteq> Z_STREAM_END" and "err \<noteq> Z_BUF_ERROR"
  shows "\<exists>w'. Deflater_deflateImpl z out off len handle flushStyle w = Some (- 1, w')
     \<and> inRead w' = inRead w \<and> finished w' = finished w"
  using assms(4-6)
  by (simp add: deflateImpl_unfold [OF assms(1-3)] throwExceptionForZlibError_def)

theorem deflateImpl_fatal_keeps_counters_witness:
  "next_in (stream demo_live) = 0x2000
   \<and> deflate demo_zlib
        ((stream demo_live)\<lparr>next_out := 0x4000 + scast (0 :: jint), avail_out := 5\<rparr>) 7
       = (- 2, \<lparr>next_in = 0x2005, avail_in = 6, next_out = 0x4005, avail_out = 0,
                 internal = Some (6, 0)\<rparr>)
   \<and> (\<exists>w'. Deflater_deflateImpl demo_zlib 0x4000 0 5 0x1000 7 (demo_world\<lparr>inRead := 6\<rparr>)
              = Some (- 1, w')
         \<and> inRead w' = 6 \<and> finished w' = False)"
proof -
  have live: "heap (demo_world\<lparr>inRead := 6\<rparr>) (toNativeZipStream 0x1000) = Some demo_live"
    by (simp add: demo_world_def toNativeZipStream_def)
  have nin: "next_in (stream demo_live) = 0x2000"
    by (simp add: demo_live_def)
  have init: "finished demo_world = False"
    by (simp add: demo_world_def)
  from deflateImpl_fatal_keeps_counters [OF demo_pinned live demo_step_fatal demo_status_fatal]
  have "\<exists>w'. Deflater_deflateImpl demo_zlib 0x4000 0 5 0x1000 7 (demo_world\<lparr>inRead := 6\<rparr>)
              = Some (- 1, w')
         \<and> inRead w' = 6 \<and> finished w' = False"
    by (simp add: init)
  with nin demo_step_fatal show ?thesis by blast
qed

text \<open>
  C10. A deflate call whose output buffer could not be pinned returns -1 and leaves the
  whole state as it was: no call into zlib is made, and the heap (so the stream context),
  the finished flag and \<^verbatim>\<open>inRead\<close> are unchanged. The handle is not even dereferenced.
\<close>

theorem deflateImpl_unpinned:
  fixes z :: "('p::len word, 'e) zlib"
  assumes "out = NULL"
  shows "Deflater_deflateImpl z out off len handle flushStyle w = Some (- 1, w)"
  using assms by (simp add: Deflater_deflateImpl_def)

theorem deflateImpl_unpinned_witness:
  "Deflater_deflateImpl demo_zlib NULL 0 64 0x1000 4 demo_world = Some (- 1, demo_world)"
  using deflateImpl_unpinned [OF refl, of demo_zlib 0 64 "0x1000" 4 demo_world]
  by simp

subsection \<open>reset\<close>

text \<open>
  C3, as the code has it. A reset call on a live handle whose \<^verbatim>\<open>deflateReset\<close> returns a
  status other than \<^verbatim>\<open>Z_OK\<close> raises \<^verbatim>\<open>java/lang/IllegalArgumentException\<close>, an invalid-argument
  condition, with the engine's message for that status.
\<close>

theorem resetImpl_rejected_raises_IllegalArgument:
  fixes z :: "('p::len word, 'e) zlib"
  assumes "heap w (toNativeZipStream handle) = Some ns"
    and "deflateReset z (stream ns) = (err, strm)"
    and "err \<noteq> Z_OK"
  shows "\<exists>w'. Deflater_resetImpl z handle w = Some w'
     \<and> exception w' =
         Some (Throwable ''java/lang/IllegalArgumentException'' (Some (zError z err)))"
  using assms by (simp add: Deflater_resetImpl_def throwExceptionForZlibError_def Let_def)

theorem resetImpl_rejected_raises_IllegalArgument_witness:
  "deflateReset demo_zlib (stream demo_obj) = (- 2, stream demo_obj)
   \<and> (- 2 :: jint) \<noteq> Z_OK
   \<and> (\<exists>w'. Deflater_resetImpl demo_zlib 0x3000 demo_world = Some w'
         \<and> exception w' =
             Some (Throwable ''java/lang/IllegalArgumentException'' (Some ''stream error'')))"
  using resetImpl_rejected_raises_IllegalArgument
          [OF demo_handle_dead demo_reset_rejected demo_status_fatal(1)]
        demo_reset_rejected demo_status_fatal(1)
  by (simp add: demo_message)

text \<open>On the context at \<open>0x3000\<close> the engine rejects the reset, and the exception raised is
  not \<^verbatim>\<open>java/lang/IllegalStateException\<close>.\<close>

theorem resetImpl_rejected_not_IllegalState:
  "fst (deflateReset demo_zlib (stream demo_obj)) \<noteq> Z_OK
   \<and> map_option (map_option className \<circ> exception)
        (Deflater_resetImpl demo_zlib 0x3000 demo_world)
       = Some (Some ''java/lang/IllegalArgumentException'')
   \<and> map_option (map_option className \<circ> exception)
        (Deflater_resetImpl demo_zlib 0x3000 demo_world)
       \<noteq> Some (Some ''java/lang/IllegalStateException'')"
  by (simp add: Deflater_resetImpl_def demo_handle_dead demo_reset_rejected demo_status_fatal
        throwExceptionForZlibError_def)

text \<open>
  C4. A reset call on a live handle leaves \<^verbatim>\<open>inRead\<close> (and the finished flag) of the
  receiving object as it was, whether the engine accepts the reset or not.
\<close>

theorem resetImpl_keeps_inRead:
  fixes z :: "('p::len word, 'e) zlib"
  assumes "heap w (toNativeZipStream handle) = Some ns"
  shows "\<exists>w'. Deflater_resetImpl z handle w = Some w'
     \<and> inRead w' = inRead w \<and> finished w' = finished w"
  using assms
  by (simp add: Deflater_resetImpl_def throwExceptionForZlibError_def Let_def
        split: prod.splits)

theorem resetImpl_keeps_inRead_witness:
  "(\<exists>w'. Deflater_resetImpl demo_zlib 0x1000 (demo_world\<lparr>inRead := 11, finished := True\<rparr>)
            = Some w'
       \<and> inRead w' = 11 \<and> finished w' = True)
   \<and> (\<exists>w'. Deflater_resetImpl demo_zlib 0x3000 (demo_world\<lparr>inRead := 11, finished := True\<rparr>)
            = Some w'
       \<and> inRead w' = 11 \<and> finished w' = True)"
proof -
  have live: "heap (demo_world\<lparr>inRead := 11, finished := True\<rparr>) (toNativeZipStream 0x1000)
                = Some demo_live"
    using demo_handle_live by simp
  have dead: "heap (demo_world\<lparr>inRead := 11, finished := True\<rparr>) (toNativeZipStream 0x3000)
                = Some demo_obj"
    using demo_handle_dead by simp
  from resetImpl_keeps_inRead [OF live, of demo_zlib]
    resetImpl_keeps_inRead [OF dead, of demo_zlib]
  show ?thesis by simp
qed

subsection \<open>create\<close>

text \<open>
  C5. Pointers are at most 64 bits wide and no object starts at the last address of the
  address space. Then a create call returns -1 exactly when it fails. When the
  allocation failed it raises \<^verbatim>\<open>java/lang/OutOfMemoryError\<close>, returns -1 and touches neither
  heap nor engine. When \<^verbatim>\<open>deflateInit2\<close> returns a status other than \<^verbatim>\<open>Z_OK\<close> it raises
  \<^verbatim>\<open>java/lang/IllegalArgumentException\<close> with the engine's message, returns -1 and the
  context is no longer on the heap. Otherwise it returns the context's address as the
  handle, which is not -1, raises nothing and the initialised context is on the heap.
\<close>

theorem createStream_sentinel_iff_failure:
  fixes z :: "('p::len word, 'e) zlib"
  assumes "LENGTH('p) \<le> 64" and "jstream \<noteq> - 1"
    and "deflateInit2 z (stream obj) level Z_DEFLATED
           (if noHeader then - DEF_WBITS else DEF_WBITS) DEF_MEM_LEVEL strategy = (err, strm)"
    and "Deflater_createStream z jstream obj level strategy noHeader w = (h, w')"
  shows "(h = - 1 \<longleftrightarrow> jstream = NULL \<or> err \<noteq> Z_OK)
     \<and> (jstream = NULL \<longrightarrow>
          h = - 1 \<and> exception w' = Some (Throwable ''java/lang/OutOfMemoryError'' None)
          \<and> heap w' = heap w \<and> calls w' = calls w)
     \<and> (jstream \<noteq> NULL \<and> err \<noteq> Z_OK \<longrightarrow>
          h = - 1
          \<and> exception w' =
              Some (Throwable ''java/lang/IllegalArgumentException'' (Some (zError z err)))
          \<and> heap w' jstream = None)
     \<and> (jstream \<noteq> NULL \<and> err = Z_OK \<longrightarrow>
          h = ucast jstream \<and> h \<noteq> - 1 \<and> exception w' = exception w
          \<and> heap w' jstream = Some (obj\<lparr>stream := strm\<rparr>))"
proof (cases "jstream = NULL")
  case True
  with assms(4) show ?thesis
    by (auto simp add: Deflater_createStream_def jniThrowOutOfMemoryError_def)
next
  case False
  note allocated = this
  show ?thesis
  proof (cases "err = Z_OK")
    case True
    with allocated assms(3,4) have "h = ucast jstream"
      and "w' = w\<lparr>heap := (heap w)(jstream \<mapsto> obj\<lparr>stream := strm\<rparr>),
                  calls := calls w @
                    [Call_deflateInit2 (stream obj) level Z_DEFLATED
                       (if noHeader then - DEF_WBITS else DEF_WBITS) DEF_MEM_LEVEL strategy]\<rparr>"
      by (auto simp add: Deflater_createStream_def Let_def)
    with allocated True ucast_jlong_not_sentinel [OF assms(1,2)] show ?thesis
      by simp
  next
    case False
    with allocated assms(3,4) show ?thesis
      by (auto simp add: Deflater_createStream_def Let_def throwExceptionForZlibError_def)
  qed
qed

theorem createStream_sentinel_iff_failure_witness:
  "fst (Deflater_createStream demo_zlib NULL demo_obj 6 0 True demo_world) = - 1
   \<and> exception (snd (Deflater_createStream demo_zlib NULL demo_obj 6 0 True demo_world))
       = Some (Throwable ''java/lang/OutOfMemoryError'' None)
   \<and> fst (Deflater_createStream demo_zlib 0x5000 demo_obj 99 0 True demo_world) = - 1
   \<and> exception (snd (Deflater_createStream demo_zlib 0x5000 demo_obj 99 0 True demo_world))
       = Some (Throwable ''java/lang/IllegalArgumentException'' (Some ''stream error''))
   \<and> heap (snd (Deflater_createStream demo_zlib 0x5000 demo_obj 99 0 True demo_world)) 0x5000
       = None
   \<and> fst (Deflater_createStream demo_zlib 0x5000 demo_obj 6 0 True demo_world) = 0x5000
   \<and> fst (Deflater_createStream demo_zlib 0x5000 demo_obj 6 0 True demo_world) \<noteq> - 1
   \<and> heap (snd (Deflater_createStream demo_zlib 0x5000 demo_obj 6 0 True demo_world)) 0x5000
       = Some (demo_obj\<lparr>stream := (stream demo_obj)\<lparr>internal := Some (6, 0)\<rparr>\<rparr>)"
proof -
  have width: "LENGTH(32) \<le> 64"
    by simp
  have addr: "(NULL :: 32 word) \<noteq> - 1" "(0x5000 :: 32 word) \<noteq> - 1" "(0x5000 :: 32 word) \<noteq> NULL"
    by (simp_all add: NULL_def)
  note codes = demo_status_fatal(1) addr
  from createStream_sentinel_iff_failure
         [OF width addr(1) demo_init_accepted surjective_pairing, of demo_world]
  have oom: "fst (Deflater_createStream demo_zlib NULL demo_obj 6 0 True demo_world) = - 1
     \<and> exception (snd (Deflater_createStream demo_zlib NULL demo_obj 6 0 True demo_world))
         = Some (Throwable ''java/lang/OutOfMemoryError'' None)"
    by simp
  from createStream_sentinel_iff_failure
         [OF width addr(2) demo_init_rejected surjective_pairing, of demo_world]
  have rejected: "fst (Deflater_createStream demo_zlib 0x5000 demo_obj 99 0 True demo_world) = - 1
     \<and> exception (snd (Deflater_createStream demo_zlib 0x5000 demo_obj 99 0 True demo_world))
         = Some (Throwable ''java/lang/IllegalArgumentException'' (Some ''stream error''))
     \<and> heap (snd (Deflater_createStream demo_zlib 0x5000 demo_obj 99 0 True demo_world)) 0x5000
         = None"
    by (simp add: codes demo_message)
  from createStream_sentinel_iff_failure
         [OF width addr(2) demo_init_accepted surjective_pairing, of demo_world]
  have accepted: "fst (Deflater_createStream demo_zlib 0x5000 demo_obj 6 0 True demo_world) = 0x5000
     \<and> fst (Deflater_createStream demo_zlib 0x5000 demo_obj 6 0 True demo_world) \<noteq> - 1
     \<and> heap (snd (Deflater_createStream demo_zlib 0x5000 demo_obj 6 0 True demo_world)) 0x5000
         = Some (demo_obj\<lparr>stream := (stream demo_obj)\<lparr>internal := Some (6, 0)\<rparr>\<rparr>)"
    by (simp add: codes)
  from oom rejected accepted show ?thesis by blast
qed

text \<open>
  C6. A create call whose allocation succeeded applies \<^verbatim>\<open>deflateInit2\<close> to the fresh
  context with the caller's level, the method \<^verbatim>\<open>Z_DEFLATED\<close>, window bits \<^verbatim>\<open>DEF_WBITS\<close>,
  negated exactly when \<^verbatim>\<open>noHeader\<close> is set, memory level \<^verbatim>\<open>DEF_MEM_LEVEL\<close> and the caller's
  strategy, and its whole outcome is the engine's answer to that call, whatever the engine:
  on \<^verbatim>\<open>Z_OK\<close> the handle of a context holding the stream the engine initialised, otherwise
  -1, the context gone and \<^verbatim>\<open>java/lang/IllegalArgumentException\<close> raised. It is the one
  call into zlib the create call makes.
\<close>

theorem createStream_init_arguments:
  fixes z :: "('p::len word, 'e) zlib"
  assumes "jstream \<noteq> NULL"
    and "deflateInit2 z (stream obj) level Z_DEFLATED
           (if noHeader then - DEF_WBITS else DEF_WBITS) DEF_MEM_LEVEL strategy = (err, strm)"
  shows "Deflater_createStream z jstream obj level strategy noHeader w =
     (if err = Z_OK
      then (ucast jstream,
            w\<lparr>heap := (heap w)(jstream \<mapsto> obj\<lparr>stream := strm\<rparr>),
              calls := calls w @
                [Call_deflateInit2 (stream obj) level Z_DEFLATED
                   (if noHeader then - DEF_WBITS else DEF_WBITS) DEF_MEM_LEVEL strategy]\<rparr>)
      else (- 1,
            w\<lparr>heap := (heap w)(jstream := None),
              calls := calls w @
                [Call_deflateInit2 (stream obj) level Z_DEFLATED
                   (if noHeader then - DEF_WBITS else DEF_WBITS) DEF_MEM_LEVEL strategy],
              exception :=
                Some (Throwable ''java/lang/IllegalArgumentException'' (Some (zError z err)))\<rparr>))"
  using assms
  by (simp add: Deflater_createStream_def Let_def throwExceptionForZlibError_def)

theorem createStream_init_arguments_witness:
  "fst (Deflater_createStream zlike_zlib 0x5000 zlike_fresh 6 2 True zlike_world) = 0x5000
   \<and> heap (snd (Deflater_createStream zlike_zlib 0x5000 zlike_fresh 6 2 True zlike_world)) 0x5000
       = Some \<lparr>stream = \<lparr>next_in = 0, avail_in = 0, next_out = 0, avail_out = 0,
                  internal = Some \<lparr>st_status = BUSY_STATE, st_level = 6, st_strategy = 2,
                                   st_wbits = 15, st_raw = True\<rparr>\<rparr>\<rparr>
   \<and> calls (snd (Deflater_createStream zlike_zlib 0x5000 zlike_fresh 6 2 True zlike_world))
       = [Call_deflateInit2 (stream zlike_fresh) 6 8 (- 15) 8 2]
   \<and> fst (Deflater_createStream zlike_zlib 0x5000 zlike_fresh 6 2 False zlike_world) = 0x5000
   \<and> heap (snd (Deflater_createStream zlike_zlib 0x5000 zlike_fresh 6 2 False zlike_world)) 0x5000
       = Some \<lparr>stream = \<lparr>next_in = 0, avail_in = 0, next_out = 0, avail_out = 0,
                  internal = Some \<lparr>st_status = BUSY_STATE, st_level = 6, st_strategy = 2,
                                   st_wbits = 15, st_raw = False\<rparr>\<rparr>\<rparr>
   \<and> calls (snd (Deflater_createStream zlike_zlib 0x5000 zlike_fresh 6 2 False zlike_world))
       = [Call_deflateInit2 (stream zlike_fresh) 6 8 15 8 2]
   \<and> fst (Deflater_createStream zlike_zlib 0x5000 zlike_fresh 2 6 True zlike_world) = - 1
   \<and> heap (snd (Deflater_createStream zlike_zlib 0x5000 zlike_fresh 2 6 True zlike_world)) 0x5000
       = None"
proof -
  have init: "calls zlike_world = []"
    by (simp add: zlike_world_def)
  note cfg = Z_DEFLATED_def DEF_WBITS_def DEF_MEM_LEVEL_def zlike_fresh_def
  have raw: "Deflater_createStream zlike_zlib 0x5000 zlike_fresh 6 2 True zlike_world =
      (0x5000, zlike_world\<lparr>heap := (heap zlike_world)(0x5000 \<mapsto>
          \<lparr>stream = \<lparr>next_in = 0, avail_in = 0, next_out = 0, avail_out = 0,
                      internal = Some \<lparr>st_status = BUSY_STATE, st_level = 6, st_strategy = 2,
                                       st_wbits = 15, st_raw = True\<rparr>\<rparr>\<rparr>),
        calls := [Call_deflateInit2 (stream zlike_fresh) 6 8 (- 15) 8 2]\<rparr>)"
    using createStream_init_arguments [OF zlike_allocated zlike_init_raw, of zlike_world]
    by (simp add: init cfg)
  have wrapped: "Deflater_createStream zlike_zlib 0x5000 zlike_fresh 6 2 False zlike_world =
      (0x5000, zlike_world\<lparr>heap := (heap zlike_world)(0x5000 \<mapsto>
          \<lparr>stream = \<lparr>next_in = 0, avail_in = 0, next_out = 0, avail_out = 0,
                      internal = Some \<lparr>st_status = BUSY_STATE, st_level = 6, st_strategy = 2,
                                       st_wbits = 15, st_raw = False\<rparr>\<rparr>\<rparr>),
        calls := [Call_deflateInit2 (stream zlike_fresh) 6 8 15 8 2]\<rparr>)"
    using createStream_init_arguments [OF zlike_allocated zlike_init_wrapped, of zlike_world]
    by (simp add: init cfg)
  have rejected: "fst (Deflater_createStream zlike_zlib 0x5000 zlike_fresh 2 6 True zlike_world) = - 1
      \<and> heap (snd (Deflater_createStream zlike_zlib 0x5000 zlike_fresh 2 6 True zlike_world)) 0x5000
          = None"
    using createStream_init_arguments [OF zlike_allocated zlike_init_rejected, of zlike_world]
    by (simp add: Z_STREAM_ERROR_fatal)
  from raw wrapped rejected show ?thesis by simp
qed

subsection \<open>setLevels\<close>

text \<open>
  C7. A setLevels call on a live handle sets the context's output cursor to \<^verbatim>\<open>NULL\<close> and
  its remaining-output count to 0 and then applies \<^verbatim>\<open>deflateParams\<close> with the caller's
  level and strategy to the stream so cleared: the context afterwards holds the stream
  that call left, and it is the one call into zlib made. When the engine's status is other
  than \<^verbatim>\<open>Z_OK\<close> the call raises \<^verbatim>\<open>java/lang/IllegalStateException\<close> with the engine's
  message; otherwise the pending exception is as it was. The receiver's fields are not
  touched.
\<close>

theorem setLevelsImpl_clears_output_then_calls:
  fixes z :: "('p::len word, 'e) zlib"
  assumes "heap w (toNativeZipStream handle) = Some ns"
    and "deflateParams z ((stream ns)\<lparr>next_out := NULL, avail_out := 0\<rparr>) level strategy
           = (err, strm)"
  shows "\<exists>w'. Deflater_setLevelsImpl z level strategy handle w = Some w'
     \<and> heap w' = (heap w)(toNativeZipStream handle \<mapsto> ns\<lparr>stream := strm\<rparr>)
     \<and> calls w' = calls w @
         [Call_deflateParams ((stream ns)\<lparr>next_out := NULL, avail_out := 0\<rparr>) level strategy]
     \<and> (err \<noteq> Z_OK \<longrightarrow>
          exception w' =
            Some (Throwable ''java/lang/IllegalStateException'' (Some (zError z err))))
     \<and> (err = Z_OK \<longrightarrow> exception w' = exception w)
     \<and> finished w' = finished w \<and> inRead w' = inRead w"
  using assms
  by (simp add: Deflater_setLevelsImpl_def throwExceptionForZlibError_def Let_def)

theorem setLevelsImpl_clears_output_then_calls_witness:
  "stream zlike_busy
     = \<lparr>next_in = 0x2000, avail_in = 11, next_out = 0x4005, avail_out = 59,
        internal = Some \<lparr>st_status = BUSY_STATE, st_level = 6, st_strategy = 0,
                         st_wbits = 15, st_raw = False\<rparr>\<rparr>
   \<and> (\<exists>w'. Deflater_setLevelsImpl zlike_zlib 9 1 0x1000 zlike_world = Some w'
       \<and> heap w' 0x1000
           = Some \<lparr>stream = \<lparr>next_in = 0x2000, avail_in = 11, next_out = 0, avail_out = 0,
                      internal = Some \<lparr>st_status = BUSY_STATE, st_level = 9, st_strategy = 1,
                                       st_wbits = 15, st_raw = False\<rparr>\<rparr>\<rparr>
       \<and> calls w' =
           [Call_deflateParams
              \<lparr>next_in = 0x2000, avail_in = 11, next_out = 0, avail_out = 0,
                 internal = Some \<lparr>st_status = BUSY_STATE, st_level = 6, st_strategy = 0,
                                  st_wbits = 15, st_raw = False\<rparr>\<rparr> 9 1]
       \<and> exception w' = None)
   \<and> (\<exists>w'. Deflater_setLevelsImpl zlike_zlib 9 1 0x6000 zlike_world = Some w'
       \<and> heap w' 0x6000
           = Some \<lparr>stream = \<lparr>next_in = 0x2000, avail_in = 11, next_out = 0, avail_out = 0,
                      internal = None\<rparr>\<rparr>
       \<and> exception w' =
           Some (Throwable ''java/lang/IllegalStateException'' (Some ''stream error'')))"
proof -
  have init: "calls zlike_world = []" "exception zlike_world = None"
    by (simp_all add: zlike_world_def)
  have stale: "stream zlike_busy
     = \<lparr>next_in = 0x2000, avail_in = 11, next_out = 0x4005, avail_out = 59,
        internal = Some \<lparr>st_status = BUSY_STATE, st_level = 6, st_strategy = 0,
                         st_wbits = 15, st_raw = False\<rparr>\<rparr>"
    by (simp add: zlike_busy_def)
  have h1: "toNativeZipStream 0x1000 = (0x1000 :: 32 word)"
    and h6: "toNativeZipStream 0x6000 = (0x6000 :: 32 word)"
    by (simp_all add: toNativeZipStream_def)
  from setLevelsImpl_clears_output_then_calls [OF zlike_handle_busy zlike_params_accepted]
  have accepted: "\<exists>w'. Deflater_setLevelsImpl zlike_zlib 9 1 0x1000 zlike_world = Some w'
       \<and> heap w' 0x1000
           = Some \<lparr>stream = \<lparr>next_in = 0x2000, avail_in = 11, next_out = 0, avail_out = 0,
                      internal = Some \<lparr>st_status = BUSY_STATE, st_level = 9, st_strategy = 1,
                                       st_wbits = 15, st_raw = False\<rparr>\<rparr>\<rparr>
       \<and> calls w' =
           [Call_deflateParams
              \<lparr>next_in = 0x2000, avail_in = 11, next_out = 0, avail_out = 0,
                 internal = Some \<lparr>st_status = BUSY_STATE, st_level = 6, st_strategy = 0,
                                  st_wbits = 15, st_raw = False\<rparr>\<rparr> 9 1]
       \<and> exception w' = None"
    by (clarsimp simp add: init h1 zlike_busy_def NULL_def)
  from setLevelsImpl_clears_output_then_calls [OF zlike_handle_ended zlike_params_rejected]
  have rejected: "\<exists>w'. Deflater_setLevelsImpl zlike_zlib 9 1 0x6000 zlike_world = Some w'
       \<and> heap w' 0x6000
           = Some \<lparr>stream = \<lparr>next_in = 0x2000, avail_in = 11, next_out = 0, avail_out = 0,
                      internal = None\<rparr>\<rparr>
       \<and> exception w' =
           Some (Throwable ''java/lang/IllegalStateException'' (Some ''stream error''))"
    by (clarsimp simp add: init h6 zlike_ended_def NULL_def Z_STREAM_ERROR_fatal zlike_message)
  from stale accepted rejected show ?thesis by blast
qed

end
